theory Spec2Isabelle
  imports Main "HOL-Library.Word"
begin

unbundle bit_operations_syntax

section \<open>Python values\<close>

text \<open>
  The backend is one Python module, \<^verbatim>\<open>job-fit-evaluator/backend/main.py\<close>.  A Python
  \<^verbatim>\<open>str\<close> is modelled as a \<open>string\<close> in which every \<open>char\<close> stands for one
  character of the text (code points below 256; larger code points and lone surrogates are
  outside the model).  A value that \<^verbatim>\<open>json.loads\<close> returns or \<^verbatim>\<open>json.dumps\<close> accepts
  is a \<open>json\<close>; a \<^verbatim>\<open>dict\<close> keeps its insertion order, so it is an association list
  (a well-formed one has distinct keys).  A float is carried by the text that
  \<^verbatim>\<open>json.dumps\<close> writes for it, since nothing here computes with floats.
\<close>

datatype json =
    JNull
  | JBool bool
  | JInt int
  | JFloat string
  | JStr string
  | JList "json list"
  | JDict "(string \<times> json) list"

text \<open>
  Exceptions: the handler tells \<^verbatim>\<open>json.JSONDecodeError\<close> from every other
  \<^verbatim>\<open>Exception\<close>; each carries the text that \<^verbatim>\<open>str(e)\<close> gives.
\<close>

datatype exn = JSONDecodeError string | OtherException string

fun str_exn :: "exn \<Rightarrow> string" where
  "str_exn (JSONDecodeError m) = m"
| "str_exn (OtherException m) = m"

text \<open>\<^verbatim>\<open>class FitRequest(BaseModel)\<close>: \<^verbatim>\<open>resume: str = None\<close>,
  \<^verbatim>\<open>preferences: dict = None\<close>, \<^verbatim>\<open>job: str\<close>.\<close>

record FitRequest =
  resume :: "string option"
  preferences :: "(string \<times> json) list option"
  job :: string

section \<open>\<^verbatim>\<open>json.dumps\<close> with its default arguments\<close>

definition hex_digit :: "nat \<Rightarrow> char" where
  "hex_digit n = ''0123456789abcdef'' ! (n mod 16)"

fun str_nat :: "nat \<Rightarrow> string" where
  "str_nat n = (if n < 10 then [hex_digit n] else str_nat (n div 10) @ [hex_digit (n mod 10)])"

declare str_nat.simps [simp del]

definition str_int :: "int \<Rightarrow> string" where
  "str_int i = (if i < 0 then CHR ''-'' # str_nat (nat (- i)) else str_nat (nat i))"

text \<open>
  \<^verbatim>\<open>ensure_ascii=True\<close>: the quote and the backslash are escaped, the control
  characters \<^verbatim>\<open>\b \f \n \r \t\<close> have short escapes, and every other character outside
  the range from space to tilde is written as a \<^verbatim>\<open>\u\<close> escape of four hex digits.
\<close>

definition escape_char :: "char \<Rightarrow> string" where
  "escape_char c =
     (let n = (of_char c :: nat) in
      if c = CHR 0x22 then [CHR 0x5C, CHR 0x22]
      else if c = CHR 0x5C then [CHR 0x5C, CHR 0x5C]
      else if c = CHR 0x08 then [CHR 0x5C, CHR ''b'']
      else if c = CHR 0x0C then [CHR 0x5C, CHR ''f'']
      else if c = CHR 0x0A then [CHR 0x5C, CHR ''n'']
      else if c = CHR 0x0D then [CHR 0x5C, CHR ''r'']
      else if c = CHR 0x09 then [CHR 0x5C, CHR ''t'']
      else if 0x20 \<le> n \<and> n \<le> 0x7E then [c]
      else [CHR 0x5C, CHR ''u'', CHR ''0'', CHR ''0'', hex_digit (n div 16), hex_digit (n mod 16)])"

definition dumps_str :: "string \<Rightarrow> string" where
  "dumps_str s = CHR 0x22 # concat (map escape_char s) @ [CHR 0x22]"

fun join :: "string \<Rightarrow> string list \<Rightarrow> string" where
  "join sep [] = []"
| "join sep [x] = x"
| "join sep (x # y # ys) = x @ sep @ join sep (y # ys)"

fun json_dumps :: "json \<Rightarrow> string"
  and dumps_elems :: "json list \<Rightarrow> string list"
  and dumps_items :: "(string \<times> json) list \<Rightarrow> string list" where
  "json_dumps JNull = ''null''"
| "json_dumps (JBool b) = (if b then ''true'' else ''false'')"
| "json_dumps (JInt i) = str_int i"
| "json_dumps (JFloat r) = r"
| "json_dumps (JStr s) = dumps_str s"
| "json_dumps (JList xs) = ''['' @ join '', '' (dumps_elems xs) @ '']''"
| "json_dumps (JDict kvs) = ''{'' @ join '', '' (dumps_items kvs) @ ''}''"
| "dumps_elems [] = []"
| "dumps_elems (x # xs) = json_dumps x # dumps_elems xs"
| "dumps_items [] = []"
| "dumps_items ((k, v) # kvs) = (dumps_str k @ '': '' @ json_dumps v) # dumps_items kvs"

section \<open>\<^verbatim>\<open>str.encode\<close> and \<^verbatim>\<open>hashlib.sha256\<close>\<close>

type_synonym byte = "8 word"
type_synonym u32 = "32 word"

text \<open>UTF-8: one byte below 128, two bytes for the other characters of the model.\<close>

definition encode_char :: "char \<Rightarrow> byte list" where
  "encode_char c =
     (let n = (of_char c :: nat) in
      if n < 128 then [of_nat n] else [of_nat (192 + n div 64), of_nat (128 + n mod 64)])"

definition encode :: "string \<Rightarrow> byte list" where
  "encode s = concat (map encode_char s)"

text \<open>
  SHA-256 as in FIPS 180-4: padding, the message schedule, 64 rounds per block.  The round
  constants run from \<^verbatim>\<open>428a2f98\<close> to \<^verbatim>\<open>c67178f2\<close> and the initial hash value starts
  at \<^verbatim>\<open>6a09e667\<close>; they are written in decimal.
\<close>

definition rotr :: "nat \<Rightarrow> u32 \<Rightarrow> u32" where
  "rotr n x = drop_bit n x OR push_bit (32 - n) x"

definition sha256_K :: "u32 list" where
  "sha256_K =
    [1116352408, 1899447441, 3049323471, 3921009573, 961987163, 1508970993,
     2453635748, 2870763221, 3624381080, 310598401, 607225278, 1426881987,
     1925078388, 2162078206, 2614888103, 3248222580, 3835390401, 4022224774,
     264347078, 604807628, 770255983, 1249150122, 1555081692, 1996064986,
     2554220882, 2821834349, 2952996808, 3210313671, 3336571891, 3584528711,
     113926993, 338241895, 666307205, 773529912, 1294757372, 1396182291,
     1695183700, 1986661051, 2177026350, 2456956037, 2730485921, 2820302411,
     3259730800, 3345764771, 3516065817, 3600352804, 4094571909, 275423344,
     430227734, 506948616, 659060556, 883997877, 958139571, 1322822218,
     1537002063, 1747873779, 1955562222, 2024104815, 2227730452, 2361852424,
     2428436474, 2756734187, 3204031479, 3329325298]"

definition sha256_H0 :: "u32 list" where
  "sha256_H0 =
    [1779033703, 3144134277, 1013904242, 2773480762,
     1359893119, 2600822924, 528734635, 1541459225]"

definition length_bytes :: "nat \<Rightarrow> byte list" where
  "length_bytes n = map (\<lambda>i. of_nat (n div 2 ^ (8 * (7 - i)))) [0..<8]"

definition pad :: "byte list \<Rightarrow> byte list" where
  "pad m = m @ [0x80] @ replicate ((119 - length m mod 64) mod 64) 0 @ length_bytes (8 * length m)"

fun be_words :: "byte list \<Rightarrow> u32 list" where
  "be_words (a # b # c # d # bs) =
     (push_bit 24 (ucast a) OR push_bit 16 (ucast b) OR push_bit 8 (ucast c) OR ucast d) # be_words bs"
| "be_words _ = []"

fun extend :: "nat \<Rightarrow> u32 list \<Rightarrow> u32 list" where
  "extend 0 w = w"
| "extend (Suc n) w =
     (let l = length w;
          x = w ! (l - 15); y = w ! (l - 2);
          s0 = rotr 7 x XOR rotr 18 x XOR drop_bit 3 x;
          s1 = rotr 17 y XOR rotr 19 y XOR drop_bit 10 y
      in extend n (w @ [w ! (l - 16) + s0 + w ! (l - 7) + s1]))"

fun round :: "u32 \<times> u32 \<Rightarrow> u32 list \<Rightarrow> u32 list" where
  "round (k, w) [a, b, c, d, e, f, g, h] =
     (let S1 = rotr 6 e XOR rotr 11 e XOR rotr 25 e;
          ch = (e AND f) XOR (NOT e AND g);
          t1 = h + S1 + ch + k + w;
          S0 = rotr 2 a XOR rotr 13 a XOR rotr 22 a;
          maj = (a AND b) XOR (a AND c) XOR (b AND c);
          t2 = S0 + maj
      in [t1 + t2, a, b, c, d + t1, e, f, g])"
| "round _ s = s"

definition compress :: "u32 list \<Rightarrow> u32 list \<Rightarrow> u32 list" where
  "compress block h = map2 (+) h (fold round (zip sha256_K (extend 48 block)) h)"

fun chunks :: "u32 list \<Rightarrow> u32 list list" where
  "chunks [] = []"
| "chunks ws = take 16 ws # chunks (drop 16 ws)"

definition sha256 :: "byte list \<Rightarrow> u32 list" where
  "sha256 m = fold compress (chunks (be_words (pad m))) sha256_H0"

definition hex_word :: "u32 \<Rightarrow> string" where
  "hex_word w = map (\<lambda>i. hex_digit (unat (drop_bit (4 * (7 - i)) w))) [0..<8]"

definition hexdigest :: "u32 list \<Rightarrow> string" where
  "hexdigest ws = concat (map hex_word ws)"

section \<open>The cache key\<close>

text \<open>\<^verbatim>\<open>data.preferences or {}\<close>: an absent or empty dict gives the empty dict.\<close>

definition or_empty :: "(string \<times> json) list option \<Rightarrow> (string \<times> json) list" where
  "or_empty p = (case p of None \<Rightarrow> [] | Some d \<Rightarrow> if d = [] then [] else d)"

text \<open>
  \<^verbatim>\<open>cache_key\<close>: \<^verbatim>\<open>data.resume[:50] if data.resume else "no-resume"\<close>; the local
  \<^verbatim>\<open>job_part\<close> is computed and never used; the hash is over the resume part, the dumped
  preferences and the whole job text.
\<close>

definition cache_key :: "FitRequest \<Rightarrow> string" where
  "cache_key data =
     (let resume_part = (case resume data of
                           None \<Rightarrow> ''no-resume''
                         | Some r \<Rightarrow> if r = [] then ''no-resume'' else take 50 r);
          job_part = take 50 (job data);
          raw = resume_part @ json_dumps (JDict (or_empty (preferences data))) @ job data
      in hexdigest (sha256 (encode raw)))"

section \<open>The prompt\<close>

definition text_lines :: "string list \<Rightarrow> string" where
  "text_lines ls = concat (map (\<lambda>l. l @ [CHR 0x0A]) ls)"

text \<open>
  \<^verbatim>\<open>PROMPT_TEMPLATE\<close>, cut at its three placeholders, with the doubled braces of the
  template already written as \<^verbatim>\<open>str.format\<close> leaves them.
\<close>

definition prompt_head :: string where
  \<open>prompt_head = text_lines
    ['''',
     ''You are a job fit evaluator for a professional portfolio website.'',
     ''Your task is to evaluate how well the portfolio owner fits a job.'',
     '''',
     ''Be objective and evidence based.'',
     ''Do not assume skills that are not written.'',
     ''If data is missing, say unknown.'',
     '''',
     ''GUIDELINES FOR MATCHING:'',
     ''1. **Transferrable Skills**: Focus on underlying concepts and domain expertise rather than exact keyword matches.'',
     ''   - *Cloud Platforms*: Experience in one major provider (AWS, GCP, Azure) IS transferrable to others. (e.g. If job asks for AWS and candidate has GCP, this is a MATCH).'',
     ''   - *Languages/Frameworks*: Proficiency in comparable technologies implies adaptability (e.g. Java/C# or React/Vue).'',
     ''2. **Seniority & Experience**: Evaluate potential and scope, not just job titles.'',
     ''   - *Hierarchy*: "Staff", "Principal", or "Lead" titles indicate a level *above* "Senior". A Staff Engineer is fully qualified for a Senior role.'',
     ''GUIDELINES FOR INTELLIGENT MATCHING (NO KEYWORD MATCHING):'',
     '''',
     ''1. **Category-Based Evaluation**:'',
     ''   - For every required skill, determine its *functional category* (e.g., "Cloud Provider", "Data Warehouse", "CI/CD").'',
     ''   - Check if the candidate has strong expertise in *any equivalent tool* within that same category.'',
     ''   - **Rule**: Expertise in ONE major tool in a category = Qualified for ALL tools in that category.'',
     ''   - *Example*: GCP experience satisfies an AWS requirement. Jenkins experience satisfies a GitHub Actions requirement.'',
     '''',
     ''2. **Concept Over Syntax**:'',
     ''   - Look for evidence of *concepts* rather than specific tool names.'',
     ''   - "Data Pipelines" or "ETL" in a resume satisfies requirements for specific tools like "Airflow" or "dbt".'',
     ''   - "Infrastructure as Code" satisfies Terraform or Pulumi.'',
     '''',
     ''3. **Seniority & Adaptability**:'',
     ''   - If the candidate is **Senior/Staff+**, assume high adaptability.'',
     ''   - Do NOT mark specific tools as gaps if the candidate has years of experience in the requested *domain* (e.g. Backend, Data, DevOps).'',
     '''',
     '''',
     ''Resume:'']\<close>

definition prompt_before_preferences :: string where
  \<open>prompt_before_preferences = text_lines
    ['''',
     '''',
     ''Preferences:'']\<close>

definition prompt_before_job :: string where
  \<open>prompt_before_job = text_lines
    ['''',
     '''',
     ''Job Description:'']\<close>

definition prompt_tail :: string where
  \<open>prompt_tail = text_lines
    ['''',
     '''',
     ''TASK'',
     ''Compare the resume and preferences to the job.'',
     ''Evaluate skills match, experience level match, domain match, role and career alignment.'',
     '''',
     ''SCORING'',
     ''Give a score from 0 to 100.'',
     ''90-100: strong fit'',
     ''70-89: good fit'',
     ''50-69: partial fit'',
     ''<50: weak fit'',
     '''',
     ''OUTPUT'',
     ''Return ONLY valid JSON.'',
     ''{'',
     ''"fit_score": 0,'',
     ''"fit_level": "",'',
     ''"aligned_areas": [],'',
     ''"gaps": [],'',
     ''"summary": "",'',
     ''"verdict": ""'',
     ''}'',
     '''',
     ''Keep summary under 80 words.'']\<close>

definition format_prompt :: "string \<Rightarrow> string \<Rightarrow> string \<Rightarrow> string" where
  "format_prompt r p j =
     prompt_head @ r @ prompt_before_preferences @ p @ prompt_before_job @ j @ prompt_tail"

section \<open>Parsing the model's text\<close>

text \<open>\<^verbatim>\<open>str.find\<close> and \<^verbatim>\<open>str.rfind\<close> for a one-character pattern: the index, or -1.\<close>

fun find_from :: "char \<Rightarrow> string \<Rightarrow> int \<Rightarrow> int" where
  "find_from c [] i = - 1"
| "find_from c (x # xs) i = (if x = c then i else find_from c xs (i + 1))"

definition str_find :: "string \<Rightarrow> char \<Rightarrow> int" where
  "str_find s c = find_from c s 0"

fun rfind_from :: "char \<Rightarrow> string \<Rightarrow> int \<Rightarrow> int \<Rightarrow> int" where
  "rfind_from c [] i found = found"
| "rfind_from c (x # xs) i found = rfind_from c xs (i + 1) (if x = c then i else found)"

definition str_rfind :: "string \<Rightarrow> char \<Rightarrow> int" where
  "str_rfind s c = rfind_from c s 0 (- 1)"

text \<open>A slice \<^verbatim>\<open>s[i:j]\<close>: a negative index counts from the end, and both are clipped.\<close>

definition slice_index :: "int \<Rightarrow> nat \<Rightarrow> nat" where
  "slice_index i n = (if i < 0 then nat (max (i + int n) 0) else min (nat i) n)"

definition slice :: "string \<Rightarrow> int \<Rightarrow> int \<Rightarrow> string" where
  "slice s i j =
     (let a = slice_index i (length s); b = slice_index j (length s)
      in take (b - a) (drop a s))"

text \<open>
  Lines 142 to 152 of \<^verbatim>\<open>job_fit\<close>.  \<^verbatim>\<open>json.loads\<close> is the standard library's decoder
  and is a parameter: it returns the decoded value or raises.  Only a
  \<^verbatim>\<open>JSONDecodeError\<close> of the first call is caught; the second call stands inside the
  handler of the first, so whatever it raises leaves the block.
\<close>

definition parse_verdict :: "(string \<Rightarrow> exn + json) \<Rightarrow> string \<Rightarrow> exn + json" where
  "parse_verdict loads text =
     (case loads text of
        Inr parsed \<Rightarrow> Inr parsed
      | Inl (JSONDecodeError m) \<Rightarrow>
          (let start = str_find text (CHR ''{'');
               end = str_rfind text (CHR ''}'') + 1
           in if start \<noteq> - 1 \<and> end \<noteq> - 1 then loads (slice text start end)
              else Inr (JDict [(''error'', JStr ''invalid_json''), (''raw'', JStr text)]))
      | Inl (OtherException m) \<Rightarrow> Inl (OtherException m))"

section \<open>The handler\<close>

text \<open>
  The module's state is the dict \<^verbatim>\<open>CACHE\<close>; the calls made to the model server are
  recorded beside it, one prompt per \<^verbatim>\<open>requests.post\<close>.  The model server is a
  parameter: for a prompt, the call either raises (\<^verbatim>\<open>requests.post\<close>,
  \<^verbatim>\<open>raise_for_status\<close> or reading the reply) or yields the reply's \<^verbatim>\<open>response\<close> text.
  A returned dict is the body of a 200 response; \<^verbatim>\<open>HTTPException\<close> carries its status
  code and detail.  Console output is not modelled.
\<close>

record server =
  CACHE :: "string \<rightharpoonup> json"
  gateway_calls :: "string list"

datatype response = Return json | HTTPException nat string

definition job_fit ::
  "(string \<Rightarrow> exn + json) \<Rightarrow> (string \<Rightarrow> exn + string) \<Rightarrow> server \<Rightarrow> FitRequest
     \<Rightarrow> response \<times> server" where
  "job_fit loads gateway s req =
     (case resume req of
        None \<Rightarrow> (Return (JDict [(''error'', JStr ''Resume text is required'')]), s)
      | Some r \<Rightarrow>
          if r = [] then (Return (JDict [(''error'', JStr ''Resume text is required'')]), s)
          else
            (let key = cache_key req in
             case CACHE s key of
               Some v \<Rightarrow> (Return v, s)
             | None \<Rightarrow>
                 (let prompt = format_prompt r (json_dumps (JDict (or_empty (preferences req)))) (job req);
                      s1 = s\<lparr>gateway_calls := gateway_calls s @ [prompt]\<rparr>
                  in case gateway prompt of
                       Inl e \<Rightarrow> (HTTPException 500 (str_exn e), s1)
                     | Inr text \<Rightarrow>
                         (case parse_verdict loads text of
                            Inl e \<Rightarrow> (HTTPException 500 (str_exn e), s1)
                          | Inr parsed \<Rightarrow>
                              (Return parsed, s1\<lparr>CACHE := (CACHE s1)(key \<mapsto> parsed)\<rparr>)))))"

section \<open>Rejected requests\<close>

text \<open>
  C4.  A request whose resume is absent is answered at once with the 200 body
  \<^verbatim>\<open>{"error": "Resume text is required"}\<close>: no exception, no call to the model server,
  and the cache neither read (the answer is the same for every state) nor changed.
\<close>

theorem job_fit_resume_absent:
  "resume req = None \<Longrightarrow>
     job_fit loads gateway s req =
       (Return (JDict [(''error'', JStr ''Resume text is required'')]), s)"
  by (simp add: job_fit_def)

theorem job_fit_resume_absent_witness:
  "job_fit (\<lambda>t. Inl (JSONDecodeError ''Expecting value''))
           (\<lambda>p. Inl (OtherException ''timed out''))
           \<lparr>CACHE = Map.empty, gateway_calls = []\<rparr>
           \<lparr>resume = None, preferences = None, job = ''Data engineer''\<rparr>
     = (Return (JDict [(''error'', JStr ''Resume text is required'')]),
        \<lparr>CACHE = Map.empty, gateway_calls = []\<rparr>)"
  using job_fit_resume_absent
    [of "\<lparr>resume = None, preferences = None, job = ''Data engineer''\<rparr>"
        "\<lambda>t. Inl (JSONDecodeError ''Expecting value'')"
        "\<lambda>p. Inl (OtherException ''timed out'')"
        "\<lparr>CACHE = Map.empty, gateway_calls = []\<rparr>"]
  by simp

text \<open>
  C8.  A resume that is present but empty is rejected in the same way, since the test is
  \<^verbatim>\<open>not req.resume\<close>.
\<close>

theorem job_fit_resume_empty:
  "resume req = Some [] \<Longrightarrow>
     job_fit loads gateway s req =
       (Return (JDict [(''error'', JStr ''Resume text is required'')]), s)"
  by (simp add: job_fit_def)

theorem job_fit_resume_empty_witness:
  "job_fit (\<lambda>t. Inl (JSONDecodeError ''Expecting value''))
           (\<lambda>p. Inr ''{}'')
           \<lparr>CACHE = Map.empty, gateway_calls = []\<rparr>
           \<lparr>resume = Some [], preferences = Some [], job = ''Data engineer''\<rparr>
     = (Return (JDict [(''error'', JStr ''Resume text is required'')]),
        \<lparr>CACHE = Map.empty, gateway_calls = []\<rparr>)"
  using job_fit_resume_empty
    [of "\<lparr>resume = Some [], preferences = Some [], job = ''Data engineer''\<rparr>"
        "\<lambda>t. Inl (JSONDecodeError ''Expecting value'')"
        "\<lambda>p. Inr ''{}''"
        "\<lparr>CACHE = Map.empty, gateway_calls = []\<rparr>"]
  by simp

section \<open>The cache key is a function of the truncated resume, the preferences and the job\<close>

lemma resume_part_take:
  assumes "take 50 r1 = take 50 r2"
  shows "(if r1 = [] then ''no-resume'' else take 50 r1) = (if r2 = [] then ''no-resume'' else take 50 r2)"
proof -
  from assms have "(take 50 r1 = []) = (take 50 r2 = [])"
    by (rule arg_cong)
  then have "r1 = [] \<longleftrightarrow> r2 = []"
    by simp
  with assms show ?thesis
    by simp
qed

lemma cache_key_cong:
  assumes "resume a = Some r1" and "resume b = Some r2" and "take 50 r1 = take 50 r2"
    and "preferences a = preferences b" and "job a = job b"
  shows "cache_key a = cache_key b"
  using assms resume_part_take [of r1 r2] by (simp add: cache_key_def)

lemma cache_key_no_resume:
  "resume a = Some ''no-resume'' \<Longrightarrow> resume b = None \<Longrightarrow>
     preferences a = preferences b \<Longrightarrow> job a = job b \<Longrightarrow> cache_key a = cache_key b"
  by (simp add: cache_key_def)

text \<open>
  C6.  Two requests whose resumes are present and agree on their first 50 characters, with
  the same preferences and the same job text, have the same key.  The key is a function of
  the request alone: no clock and no random source enters it.
\<close>

theorem cache_key_deterministic:
  "resume a = Some r1 \<Longrightarrow> resume b = Some r2 \<Longrightarrow> take 50 r1 = take 50 r2 \<Longrightarrow>
     preferences a = preferences b \<Longrightarrow> job a = job b \<Longrightarrow> cache_key a = cache_key b"
  by (rule cache_key_cong)

theorem cache_key_deterministic_witness:
  "cache_key \<lparr>resume = Some ''Ten years of data engineering'', preferences = Some [(''remote'', JBool True)],
              job = ''Data engineer''\<rparr>
     = cache_key \<lparr>resume = Some ''Ten years of data engineering'', preferences = Some [(''remote'', JBool True)],
                  job = ''Data engineer''\<rparr>
   \<and> take 50 ''Ten years of data engineering'' = ''Ten years of data engineering''"
  using cache_key_deterministic
    [of "\<lparr>resume = Some ''Ten years of data engineering'', preferences = Some [(''remote'', JBool True)],
           job = ''Data engineer''\<rparr>"
        "''Ten years of data engineering''"
        "\<lparr>resume = Some ''Ten years of data engineering'', preferences = Some [(''remote'', JBool True)],
           job = ''Data engineer''\<rparr>"
        "''Ten years of data engineering''"]
  by simp

text \<open>
  C7.  Two resumes that agree on the first 50 characters and differ after them give the
  same key when the preferences and the job text are the same.
\<close>

theorem cache_key_truncation:
  "resume a = Some r1 \<Longrightarrow> resume b = Some r2 \<Longrightarrow> take 50 r1 = take 50 r2 \<Longrightarrow>
     drop 50 r1 \<noteq> drop 50 r2 \<Longrightarrow> preferences a = preferences b \<Longrightarrow> job a = job b \<Longrightarrow>
     cache_key a = cache_key b"
  by (rule cache_key_cong)

theorem cache_key_truncation_witness:
  "replicate 50 (CHR ''x'') @ ''Python'' \<noteq> replicate 50 (CHR ''x'') @ ''Cobol''
   \<and> cache_key \<lparr>resume = Some (replicate 50 (CHR ''x'') @ ''Python''), preferences = None, job = ''Data engineer''\<rparr>
     = cache_key \<lparr>resume = Some (replicate 50 (CHR ''x'') @ ''Cobol''), preferences = None, job = ''Data engineer''\<rparr>"
  using cache_key_truncation
    [of "\<lparr>resume = Some (replicate 50 (CHR ''x'') @ ''Python''), preferences = None, job = ''Data engineer''\<rparr>"
        "replicate 50 (CHR ''x'') @ ''Python''"
        "\<lparr>resume = Some (replicate 50 (CHR ''x'') @ ''Cobol''), preferences = None, job = ''Data engineer''\<rparr>"
        "replicate 50 (CHR ''x'') @ ''Cobol''"]
  by simp

section \<open>Cache hits, gateway failures and stored results\<close>

text \<open>
  C5, as the code has it.  For a request with a non-empty resume whose key is in the
  cache, the handler returns the stored object and leaves the state as it was: the cache is
  unchanged, no call to the model server is recorded, and the answer does not depend on the
  decoder or on the model server.
\<close>

theorem job_fit_cache_hit:
  "resume req = Some r \<Longrightarrow> r \<noteq> [] \<Longrightarrow> CACHE s (cache_key req) = Some v \<Longrightarrow>
     job_fit loads gateway s req = (Return v, s)"
  by (simp add: job_fit_def)

theorem job_fit_cache_hit_witness:
  "job_fit (\<lambda>t. Inl (JSONDecodeError ''Expecting value''))
           (\<lambda>p. Inl (OtherException ''timed out''))
           \<lparr>CACHE = [cache_key \<lparr>resume = Some ''Data engineer, ten years'', preferences = None, job = ''Data engineer''\<rparr>
                       \<mapsto> JDict [(''fit_score'', JInt 80)]],
             gateway_calls = []\<rparr>
           \<lparr>resume = Some ''Data engineer, ten years'', preferences = None, job = ''Data engineer''\<rparr>
     = (Return (JDict [(''fit_score'', JInt 80)]),
        \<lparr>CACHE = [cache_key \<lparr>resume = Some ''Data engineer, ten years'', preferences = None, job = ''Data engineer''\<rparr>
                       \<mapsto> JDict [(''fit_score'', JInt 80)]],
          gateway_calls = []\<rparr>)"
  using job_fit_cache_hit
    [of "\<lparr>resume = Some ''Data engineer, ten years'', preferences = None, job = ''Data engineer''\<rparr>"
        "''Data engineer, ten years''"
        "\<lparr>CACHE = [cache_key \<lparr>resume = Some ''Data engineer, ten years'', preferences = None, job = ''Data engineer''\<rparr>
                       \<mapsto> JDict [(''fit_score'', JInt 80)]],
           gateway_calls = []\<rparr>"
        "JDict [(''fit_score'', JInt 80)]"
        "\<lambda>t. Inl (JSONDecodeError ''Expecting value'')"
        "\<lambda>p. Inl (OtherException ''timed out'')"]
  by simp

text \<open>
  C5, as the spec words it, fails: the key of a request without a resume can be in the
  cache (a request whose resume is the text \<^verbatim>\<open>no-resume\<close> has the same key, see
  \<open>cache_key_no_resume\<close>), and the handler rejects that request before it looks the key up.
\<close>

theorem job_fit_cache_hit_counterexample:
  "CACHE \<lparr>CACHE = [cache_key \<lparr>resume = None, preferences = None, job = ''Data engineer''\<rparr>
                     \<mapsto> JDict [(''fit_score'', JInt 80)]],
           gateway_calls = []\<rparr>
         (cache_key \<lparr>resume = None, preferences = None, job = ''Data engineer''\<rparr>)
     = Some (JDict [(''fit_score'', JInt 80)])
   \<and> fst (job_fit (\<lambda>t. Inl (JSONDecodeError ''Expecting value''))
                  (\<lambda>p. Inl (OtherException ''timed out''))
                  \<lparr>CACHE = [cache_key \<lparr>resume = None, preferences = None, job = ''Data engineer''\<rparr>
                              \<mapsto> JDict [(''fit_score'', JInt 80)]],
                    gateway_calls = []\<rparr>
                  \<lparr>resume = None, preferences = None, job = ''Data engineer''\<rparr>)
     \<noteq> Return (JDict [(''fit_score'', JInt 80)])"
  by (simp add: job_fit_def)

text \<open>
  C3.  When the request is not rejected, its key is not in the cache and the call to the
  model server raises, the handler raises \<^verbatim>\<open>HTTPException\<close> with status 500 and the text
  of the exception as detail; the call is recorded and the cache is what it was.
\<close>

theorem job_fit_gateway_raises:
  "resume req = Some r \<Longrightarrow> r \<noteq> [] \<Longrightarrow> CACHE s (cache_key req) = None \<Longrightarrow>
   gateway (format_prompt r (json_dumps (JDict (or_empty (preferences req)))) (job req)) = Inl e \<Longrightarrow>
     fst (job_fit loads gateway s req) = HTTPException 500 (str_exn e)
     \<and> CACHE (snd (job_fit loads gateway s req)) = CACHE s"
  by (simp add: job_fit_def)

theorem job_fit_gateway_raises_witness:
  "fst (job_fit (\<lambda>t. Inr JNull) (\<lambda>p. Inl (OtherException ''Read timed out''))
          \<lparr>CACHE = Map.empty, gateway_calls = []\<rparr>
          \<lparr>resume = Some ''Data engineer, ten years'', preferences = None, job = ''Data engineer''\<rparr>)
     = HTTPException 500 ''Read timed out''
   \<and> CACHE (snd (job_fit (\<lambda>t. Inr JNull) (\<lambda>p. Inl (OtherException ''Read timed out''))
          \<lparr>CACHE = Map.empty, gateway_calls = []\<rparr>
          \<lparr>resume = Some ''Data engineer, ten years'', preferences = None, job = ''Data engineer''\<rparr>))
     = Map.empty"
  using job_fit_gateway_raises
    [of "\<lparr>resume = Some ''Data engineer, ten years'', preferences = None, job = ''Data engineer''\<rparr>"
        "''Data engineer, ten years''"
        "\<lparr>CACHE = Map.empty, gateway_calls = []\<rparr>"
        "\<lambda>p. Inl (OtherException ''Read timed out'')"
        "OtherException ''Read timed out''"
        "\<lambda>t. Inr JNull"]
  by simp

text \<open>
  C9.  When the request is not rejected, its key is not in the cache and the handler
  returns an object, that object is in the cache under the request's key afterwards, and the
  same request sent again is answered with it from the cache, whatever the decoder and the
  model server would do, with no further call recorded.  The object may be the
  \<^verbatim>\<open>invalid_json\<close> object: the witness is that case.
\<close>

theorem job_fit_stores_result:
  "resume req = Some r \<Longrightarrow> r \<noteq> [] \<Longrightarrow> CACHE s (cache_key req) = None \<Longrightarrow>
   job_fit loads gateway s req = (Return v, s') \<Longrightarrow>
     CACHE s' (cache_key req) = Some v \<and> job_fit loads' gateway' s' req = (Return v, s')"
  by (auto simp: job_fit_def Let_def split: sum.splits)

theorem job_fit_stores_result_witness:
  "CACHE (snd (job_fit (\<lambda>t. Inl (JSONDecodeError ''Expecting value: line 1 column 1 (char 0)''))
                       (\<lambda>p. Inr ''not json at all'')
                       \<lparr>CACHE = Map.empty, gateway_calls = []\<rparr>
                       \<lparr>resume = Some ''Data engineer, ten years'', preferences = None, job = ''Data engineer''\<rparr>))
         (cache_key \<lparr>resume = Some ''Data engineer, ten years'', preferences = None, job = ''Data engineer''\<rparr>)
     = Some (JDict [(''error'', JStr ''invalid_json''), (''raw'', JStr ''not json at all'')])
   \<and> job_fit (\<lambda>t. Inr JNull) (\<lambda>p. Inl (OtherException ''timed out''))
         (snd (job_fit (\<lambda>t. Inl (JSONDecodeError ''Expecting value: line 1 column 1 (char 0)''))
                       (\<lambda>p. Inr ''not json at all'')
                       \<lparr>CACHE = Map.empty, gateway_calls = []\<rparr>
                       \<lparr>resume = Some ''Data engineer, ten years'', preferences = None, job = ''Data engineer''\<rparr>))
         \<lparr>resume = Some ''Data engineer, ten years'', preferences = None, job = ''Data engineer''\<rparr>
     = (Return (JDict [(''error'', JStr ''invalid_json''), (''raw'', JStr ''not json at all'')]),
        snd (job_fit (\<lambda>t. Inl (JSONDecodeError ''Expecting value: line 1 column 1 (char 0)''))
                     (\<lambda>p. Inr ''not json at all'')
                     \<lparr>CACHE = Map.empty, gateway_calls = []\<rparr>
                     \<lparr>resume = Some ''Data engineer, ten years'', preferences = None, job = ''Data engineer''\<rparr>))"
proof -
  have run: "job_fit (\<lambda>t. Inl (JSONDecodeError ''Expecting value: line 1 column 1 (char 0)''))
                     (\<lambda>p. Inr ''not json at all'')
                     \<lparr>CACHE = Map.empty, gateway_calls = []\<rparr>
                     \<lparr>resume = Some ''Data engineer, ten years'', preferences = None, job = ''Data engineer''\<rparr>
      = (Return (JDict [(''error'', JStr ''invalid_json''), (''raw'', JStr ''not json at all'')]),
         snd (job_fit (\<lambda>t. Inl (JSONDecodeError ''Expecting value: line 1 column 1 (char 0)''))
                      (\<lambda>p. Inr ''not json at all'')
                      \<lparr>CACHE = Map.empty, gateway_calls = []\<rparr>
                      \<lparr>resume = Some ''Data engineer, ten years'', preferences = None, job = ''Data engineer''\<rparr>))"
    by (simp add: job_fit_def parse_verdict_def str_find_def str_rfind_def)
  show ?thesis
    by (rule job_fit_stores_result [OF _ _ _ run, of "''Data engineer, ten years''"]) simp_all
qed

section \<open>The brace fallback\<close>

lemma find_from_none: "0 \<le> i \<Longrightarrow> (find_from c s i = - 1) = (c \<notin> set s)"
  by (induction s arbitrary: i) auto

lemma str_find_none: "(str_find s c = - 1) = (c \<notin> set s)"
  by (simp add: str_find_def find_from_none)

lemma rfind_from_lower: "- 1 \<le> found \<Longrightarrow> 0 \<le> i \<Longrightarrow> - 1 \<le> rfind_from c s i found"
  by (induction s arbitrary: i found) auto

text \<open>
  \<^verbatim>\<open>end\<close> is the result of \<^verbatim>\<open>rfind\<close> plus one, so it is never -1 and the test
  \<^verbatim>\<open>end != -1\<close> holds for every text: the fallback is taken whenever an opening brace
  exists.
\<close>

lemma end_not_minus_one: "str_rfind s c + 1 \<noteq> - 1"
  using rfind_from_lower [of "- 1" 0 c s] by (simp add: str_rfind_def)

lemma parse_verdict_direct: "loads text = Inr v \<Longrightarrow> parse_verdict loads text = Inr v"
  by (simp add: parse_verdict_def)

lemma parse_verdict_no_open_brace:
  "loads text = Inl (JSONDecodeError m) \<Longrightarrow> CHR ''{'' \<notin> set text \<Longrightarrow>
     parse_verdict loads text = Inr (JDict [(''error'', JStr ''invalid_json''), (''raw'', JStr text)])"
  by (simp add: parse_verdict_def str_find_none)

lemma parse_verdict_open_brace:
  "loads text = Inl (JSONDecodeError m) \<Longrightarrow> CHR ''{'' \<in> set text \<Longrightarrow>
     parse_verdict loads text =
       loads (slice text (str_find text (CHR ''{'')) (str_rfind text (CHR ''}'') + 1))"
  by (simp add: parse_verdict_def str_find_none end_not_minus_one)

lemma parse_verdict_other_exception:
  "loads text = Inl (OtherException m) \<Longrightarrow> parse_verdict loads text = Inl (OtherException m)"
  by (simp add: parse_verdict_def)

text \<open>The spec's three examples, for a decoder that behaves on them as \<^verbatim>\<open>json.loads\<close> does.\<close>

lemma parse_verdict_wrapped_example:
  \<open>loads ''Sure! {"fit_score": 80} Hope that helps!'' = Inl (JSONDecodeError m) \<Longrightarrow>
   loads ''{"fit_score": 80}'' = Inr v \<Longrightarrow>
     parse_verdict loads ''Sure! {"fit_score": 80} Hope that helps!'' = Inr v\<close>
  by (simp add: parse_verdict_def str_find_def str_rfind_def slice_def slice_index_def)

lemma parse_verdict_no_json_example:
  "loads ''not json at all'' = Inl (JSONDecodeError m) \<Longrightarrow>
     parse_verdict loads ''not json at all'' =
       Inr (JDict [(''error'', JStr ''invalid_json''), (''raw'', JStr ''not json at all'')])"
  by (simp add: parse_verdict_no_open_brace)

text \<open>
  C2 at the text \<^verbatim>\<open>{\<close>, which holds no brace-delimited region.  \<^verbatim>\<open>find\<close> gives 0,
  \<^verbatim>\<open>rfind\<close> gives -1, so \<^verbatim>\<open>end\<close> is 0, the test passes and the empty slice is decoded:
  what the decoder raises on the empty text leaves the parser, where the claim has the
  \<^verbatim>\<open>invalid_json\<close> object.
\<close>

theorem parse_verdict_unclosed_brace:
  "loads ''{'' = Inl (JSONDecodeError m) \<Longrightarrow> loads [] = Inl e \<Longrightarrow>
     parse_verdict loads ''{'' = Inl e"
  by (simp add: parse_verdict_def str_find_def str_rfind_def slice_def slice_index_def)

theorem parse_verdict_unclosed_brace_witness:
  "parse_verdict
     (\<lambda>t. if t = [] then Inl (JSONDecodeError ''Expecting value: line 1 column 1 (char 0)'')
          else Inl (JSONDecodeError ''Expecting property name enclosed in double quotes: line 1 column 2 (char 1)''))
     ''{''
   = Inl (JSONDecodeError ''Expecting value: line 1 column 1 (char 0)'')"
  using parse_verdict_unclosed_brace
    [of "\<lambda>t. if t = [] then Inl (JSONDecodeError ''Expecting value: line 1 column 1 (char 0)'')
          else Inl (JSONDecodeError ''Expecting property name enclosed in double quotes: line 1 column 2 (char 1)'')"
        "''Expecting property name enclosed in double quotes: line 1 column 2 (char 1)''"
        "JSONDecodeError ''Expecting value: line 1 column 1 (char 0)''"]
  by simp

text \<open>
  C1 at a reply cut off before its closing brace, \<^verbatim>\<open>{"fit_score": 80\<close>.  The decoder
  rejects the text, the fallback decodes the empty slice, and the exception raised there
  reaches the handler's outer \<^verbatim>\<open>except\<close>: the request ends in \<^verbatim>\<open>HTTPException\<close> 500 with
  that exception's text, and nothing is stored.
\<close>

theorem job_fit_truncated_reply_500:
  \<open>resume req = Some r \<Longrightarrow> r \<noteq> [] \<Longrightarrow> CACHE s (cache_key req) = None \<Longrightarrow>
   gateway (format_prompt r (json_dumps (JDict (or_empty (preferences req)))) (job req))
     = Inr ''{"fit_score": 80'' \<Longrightarrow>
   loads ''{"fit_score": 80'' = Inl (JSONDecodeError m) \<Longrightarrow> loads [] = Inl e \<Longrightarrow>
     fst (job_fit loads gateway s req) = HTTPException 500 (str_exn e)
     \<and> CACHE (snd (job_fit loads gateway s req)) = CACHE s\<close>
  by (simp add: job_fit_def parse_verdict_def str_find_def str_rfind_def slice_def slice_index_def)

theorem job_fit_truncated_reply_500_witness:
  \<open>fst (job_fit (\<lambda>t. if t = [] then Inl (JSONDecodeError ''Expecting value: line 1 column 1 (char 0)'')
                     else Inl (JSONDecodeError (''Expecting '' @ [CHR 0x27, CHR '','', CHR 0x27] @ '' delimiter: line 1 column 17 (char 16)'')))
                (\<lambda>p. Inr ''{"fit_score": 80'')
                \<lparr>CACHE = Map.empty, gateway_calls = []\<rparr>
                \<lparr>resume = Some ''Data engineer, ten years'', preferences = None, job = ''Data engineer''\<rparr>)
     = HTTPException 500 ''Expecting value: line 1 column 1 (char 0)''\<close>
  using job_fit_truncated_reply_500
    [of "\<lparr>resume = Some ''Data engineer, ten years'', preferences = None, job = ''Data engineer''\<rparr>"
        "''Data engineer, ten years''"
        "\<lparr>CACHE = Map.empty, gateway_calls = []\<rparr>"
        \<open>\<lambda>p. Inr ''{"fit_score": 80''\<close>
        "\<lambda>t. if t = [] then Inl (JSONDecodeError ''Expecting value: line 1 column 1 (char 0)'')
             else Inl (JSONDecodeError (''Expecting '' @ [CHR 0x27, CHR '','', CHR 0x27] @ '' delimiter: line 1 column 17 (char 16)''))"
        "''Expecting '' @ [CHR 0x27, CHR '','', CHR 0x27] @ '' delimiter: line 1 column 17 (char 16)''"
        "JSONDecodeError ''Expecting value: line 1 column 1 (char 0)''"]
  by simp

end
